theory Spec2Isabelle
  imports Complex_Main "HOL-Library.AList"
begin

section \<open>Errors raised by the four scripts\<close>

text \<open>
  The scripts fail only by raising: \<^verbatim>\<open>ValueError\<close> (with its message), \<^verbatim>\<open>SystemExit\<close>
  (with the diagnostic it prints) and, inside pandas, \<^verbatim>\<open>TypeError\<close>. A function that can
  raise returns \<open>error + 'a\<close>, with \<open>Inl\<close> for the exception.
\<close>

datatype error = ValueError string | TypeError string | SystemExit string

section \<open>\<^verbatim>\<open>time_series_plot.py\<close>: the moving average\<close>

text \<open>
  Samples are modelled as real numbers and the arithmetic of the model is exact. NumPy
  computes in IEEE doubles: the weight \<open>1 / W\<close> is a rounded quotient, and the products
  and their running sum are rounded again, so a value of the model and the double the code
  returns agree up to rounding only (for the samples 1, 2, 3, 4, 5 and a window of 3 the model
  gives 4 at position 3, the code the double just below 4). Which positions take part in
  an output value, the lengths of the results and the errors raised do not depend on the
  rounding. The window size is a Python \<^verbatim>\<open>int\<close>.

  \<^verbatim>\<open>np.ones(n)\<close> is the array of \<open>n\<close> ones.
\<close>

definition ones :: "nat \<Rightarrow> real list" where
  "ones n = replicate n 1"

text \<open>
  NumPy's one-dimensional correlation in mode \<^verbatim>\<open>same\<close>, for a first argument at least as long
  as the second: output position \<open>i\<close> is the dot product of \<open>w\<close> with the stretch of \<open>a\<close>
  that starts \<open>length w div 2\<close> places to the left of \<open>i\<close>; places outside \<open>a\<close> contribute
  nothing. The output has the length of \<open>a\<close>. The dot product here is the exact one; NumPy's
  is the same sum of products in rounded double arithmetic.
\<close>

definition correlate_same :: "real list \<Rightarrow> real list \<Rightarrow> real list" where
  "correlate_same a w =
     map (\<lambda>i. \<Sum>j\<leftarrow>[0..<length w].
            (let p = int i - int (length w div 2) + int j
             in if 0 \<le> p \<and> p < int (length a) then a ! nat p * w ! j else 0))
         [0..<length a]"

text \<open>
  \<^verbatim>\<open>np.convolve(a, v, mode="same")\<close>: NumPy first exchanges the arguments when \<open>v\<close> is the
  longer one, then refuses an empty argument, then correlates with the reversed second
  argument. The result therefore has the length of the longer argument.
\<close>

definition convolve_same :: "real list \<Rightarrow> real list \<Rightarrow> error + real list" where
  "convolve_same a v =
     (let a' = (if length v > length a then v else a);
          v' = (if length v > length a then a else v)
      in if a' = [] then Inl (ValueError ''a cannot be empty'')
         else if v' = [] then Inl (ValueError ''v cannot be empty'')
         else Inr (correlate_same a' (rev v')))"

text \<open>
  \<^verbatim>\<open>
  def moving_average(x, window_size=25):
      if window_size < 1:
          raise ValueError("window_size must be >= 1")
      window = np.ones(window_size) / window_size
      return np.convolve(x, window, mode="same")
  \<close>
\<close>

definition moving_average :: "real list \<Rightarrow> int \<Rightarrow> error + real list" where
  "moving_average x window_size =
     (if window_size < 1 then Inl (ValueError ''window_size must be >= 1'')
      else convolve_same x (map (\<lambda>one. one / of_int window_size) (ones (nat window_size))))"

subsection \<open>The specification's reading of the moving average\<close>

text \<open>
  The sample at position \<open>p\<close> of the sequence extended by zeros on both sides.
\<close>

definition zero_padded :: "real list \<Rightarrow> int \<Rightarrow> real" where
  "zero_padded x p = (if 0 \<le> p \<and> p < int (length x) then x ! nat p else 0)"

text \<open>
  The mean of the \<open>W\<close> zero-padded samples centred on position \<open>i\<close>: \<open>W div 2\<close> samples before
  \<open>i\<close>, the sample at \<open>i\<close>, and \<open>(W - 1) div 2\<close> samples after it (for an even \<open>W\<close> the
  window reaches one sample further to the left than to the right).
\<close>

definition centered_window_mean :: "real list \<Rightarrow> int \<Rightarrow> nat \<Rightarrow> real" where
  "centered_window_mean x W i =
     (\<Sum>p\<leftarrow>[int i - W div 2 .. int i + (W - 1) div 2]. zero_padded x p) / of_int W"

section \<open>\<^verbatim>\<open>log_trend_analyzer.py\<close>: the line parser\<close>

subsection \<open>Strings, dictionaries and cells\<close>

text \<open>
  Strings are lists of characters with code points below 256. \<^verbatim>\<open>str.strip()\<close> removes
  white space from both ends: the characters of that range for which \<^verbatim>\<open>str.isspace\<close> holds.
\<close>

definition isspace :: "char \<Rightarrow> bool" where
  "isspace c = (c \<in> set [CHR 0x09, CHR 0x0A, CHR 0x0B, CHR 0x0C, CHR 0x0D,
                          CHR 0x1C, CHR 0x1D, CHR 0x1E, CHR 0x1F, CHR '' '',
                          CHR 0x85, CHR 0xA0])"

definition strip :: "string \<Rightarrow> string" where
  "strip s = rev (dropWhile isspace (rev (dropWhile isspace s)))"

text \<open>
  A Python \<^verbatim>\<open>dict\<close> with string keys is an association list in insertion order;
  \<^verbatim>\<open>d[k] = v\<close> is \<^const>\<open>AList.update\<close> (the value is replaced in place, a new key is added at
  the end) and \<^verbatim>\<open>d.update(e)\<close> stores the items of \<open>e\<close> one after the other.
\<close>

type_synonym 'a dict = "(string \<times> 'a) list"

definition dict_update :: "'a dict \<Rightarrow> 'a dict \<Rightarrow> 'a dict" where
  "dict_update d e = fold (\<lambda>(k, v). AList.update k v) e d"

text \<open>
  The values a record or a table cell can hold: a string, a float (of a type \<open>'f\<close> that the
  log parser leaves open and the numeric summaries take as \<open>real\<close>), a parsed timestamp
  (nanoseconds since the epoch), or the missing value (\<^verbatim>\<open>None\<close>, \<^verbatim>\<open>NaN\<close>, \<^verbatim>\<open>NaT\<close>).
\<close>

datatype 'f cell = Str string | Num 'f | Time int | Null

definition optional_cell :: "'f option \<Rightarrow> 'f cell" where
  "optional_cell v = (case v of None \<Rightarrow> Null | Some f \<Rightarrow> Num f)"

subsection \<open>\<^verbatim>\<open>LOG_PATTERN\<close>\<close>

text \<open>
  \<^verbatim>\<open>
  ^(?P<timestamp>[^,]+),(?P<level>[^,]+),(?P<instrument_id>[^,]+),(?P<message>.+)$
  \<close>
  \<open>comma_field\<close> is one \<^verbatim>\<open>[^,]+,\<close>: the non-empty text before the first comma, and what
  follows that comma. \<open>message_group\<close> is \<^verbatim>\<open>(.+)$\<close>: the non-empty rest without a newline
  in it (\<^verbatim>\<open>$\<close> also matches before one final newline).
\<close>

definition comma_field :: "string \<Rightarrow> (string \<times> string) option" where
  "comma_field s =
     (let f = takeWhile (\<lambda>c. c \<noteq> CHR '','') s; r = dropWhile (\<lambda>c. c \<noteq> CHR '','') s
      in if f = [] \<or> r = [] then None else Some (f, tl r))"

definition message_group :: "string \<Rightarrow> string option" where
  "message_group s =
     (let m = (if s \<noteq> [] \<and> last s = CHR 0x0A then butlast s else s)
      in if m = [] \<or> CHR 0x0A \<in> set m then None else Some m)"

definition LOG_PATTERN_match :: "string \<Rightarrow> (string \<times> string \<times> string \<times> string) option" where
  "LOG_PATTERN_match line =
     (case comma_field line of None \<Rightarrow> None | Some (timestamp, r1) \<Rightarrow>
      (case comma_field r1 of None \<Rightarrow> None | Some (level, r2) \<Rightarrow>
       (case comma_field r2 of None \<Rightarrow> None | Some (instrument_id, r3) \<Rightarrow>
        (case message_group r3 of None \<Rightarrow> None | Some message \<Rightarrow>
           Some (timestamp, level, instrument_id, message)))))"

subsection \<open>\<^verbatim>\<open>parse_message\<close>\<close>

text \<open>
  \<^verbatim>\<open>re.split(r"[ ,]+", s)\<close>: the pieces of \<open>s\<close> between the maximal runs of spaces and
  commas; a run at either end leaves an empty piece there. \<open>split_run\<close> reads \<open>s\<close> from the
  left with the piece read so far (reversed) and a flag that is set inside a run.
\<close>

definition is_sep :: "char \<Rightarrow> bool" where
  "is_sep c = (c = CHR '' '' \<or> c = CHR '','')"

fun split_run :: "bool \<Rightarrow> string \<Rightarrow> string \<Rightarrow> string list" where
  "split_run in_run piece [] = [rev piece]"
| "split_run in_run piece (c # cs) =
     (if is_sep c
      then (if in_run then split_run True piece cs else rev piece # split_run True [] cs)
      else split_run False (c # piece) cs)"

definition re_split :: "string \<Rightarrow> string list" where
  "re_split s = split_run False [] s"

text \<open>
  \<^verbatim>\<open>key, value_str = token.split("=", 1)\<close>, for a token with an \<^verbatim>\<open>=\<close> in it.
\<close>

definition token_key :: "string \<Rightarrow> string" where
  "token_key token = takeWhile (\<lambda>c. c \<noteq> CHR ''='') token"

definition token_value :: "string \<Rightarrow> string" where
  "token_value token = tl (dropWhile (\<lambda>c. c \<noteq> CHR ''='') token)"

text \<open>
  Python's \<^verbatim>\<open>float\<close> is a parameter of the model: \<open>float s = None\<close> stands for the
  \<^verbatim>\<open>ValueError\<close> that the parser catches.
  \<^verbatim>\<open>
  def parse_message(message):
      result = {}
      if "=" not in message:
          return result
      tokens = re.split(r"[ ,]+", message.strip())
      for token in tokens:
          if "=" in token:
              key, value_str = token.split("=", 1)
              try:
                  value = float(value_str)
              except ValueError:
                  value = None
              result[key] = value
      return result
  \<close>
\<close>

definition parse_token :: "(string \<Rightarrow> 'f option) \<Rightarrow> string \<Rightarrow> 'f option dict \<Rightarrow> 'f option dict" where
  "parse_token float token result =
     (if CHR ''='' \<in> set token
      then AList.update (token_key token) (float (token_value token)) result
      else result)"

definition parse_message :: "(string \<Rightarrow> 'f option) \<Rightarrow> string \<Rightarrow> 'f option dict" where
  "parse_message float message =
     (if CHR ''='' \<notin> set message then []
      else fold (parse_token float) (re_split (strip message)) [])"

text \<open>
  Among the tokens of a message, the last one that carries the key \<open>k\<close> (the reading of
  \<open>last occurrence wins\<close>).
\<close>

definition last_token_for :: "string \<Rightarrow> string list \<Rightarrow> string option" where
  "last_token_for k tokens = find (\<lambda>u. CHR ''='' \<in> set u \<and> token_key u = k) (rev tokens)"

subsection \<open>The loop of \<^verbatim>\<open>load_log\<close>\<close>

text \<open>
  One pass of the loop over the lines of the file: \<open>None\<close> when the pass ends in
  \<^verbatim>\<open>continue\<close>, the record appended to \<^verbatim>\<open>records\<close> otherwise.
  \<^verbatim>\<open>
  line = line.strip()
  if not line: continue
  m = LOG_PATTERN.match(line)
  if not m: continue
  data = m.groupdict()
  msg_fields = parse_message(data["message"])
  record = {"timestamp": data["timestamp"], "level": data["level"],
            "instrument_id": data["instrument_id"], "message": data["message"]}
  record.update(msg_fields)
  records.append(record)
  \<close>
\<close>

definition base_record :: "string \<Rightarrow> string \<Rightarrow> string \<Rightarrow> string \<Rightarrow> 'f cell dict" where
  "base_record timestamp level instrument_id message =
     [(''timestamp'', Str timestamp), (''level'', Str level),
      (''instrument_id'', Str instrument_id), (''message'', Str message)]"

definition parse_line :: "(string \<Rightarrow> 'f option) \<Rightarrow> string \<Rightarrow> 'f cell dict option" where
  "parse_line float raw =
     (let line = strip raw
      in if line = [] then None
         else (case LOG_PATTERN_match line of
                 None \<Rightarrow> None
               | Some (timestamp, level, instrument_id, message) \<Rightarrow>
                   Some (dict_update (base_record timestamp level instrument_id message)
                           (map (\<lambda>(k, v). (k, optional_cell v)) (parse_message float message)))))"

definition parse_lines :: "(string \<Rightarrow> 'f option) \<Rightarrow> string list \<Rightarrow> 'f cell dict list" where
  "parse_lines float lines = List.map_filter (parse_line float) lines"

section \<open>Tables: the part of pandas the scripts use\<close>

text \<open>
  A \<^verbatim>\<open>DataFrame\<close> is its column names and its rows, each row a dictionary from column names
  to cells; a column a row has no entry for holds the missing value there.
\<close>

record 'f frame =
  columns :: "string list"
  rows :: "'f cell dict list"

definition cell_at :: "'f cell dict \<Rightarrow> string \<Rightarrow> 'f cell" where
  "cell_at r k = (case map_of r k of None \<Rightarrow> Null | Some c \<Rightarrow> c)"

definition column :: "'f frame \<Rightarrow> string \<Rightarrow> 'f cell list" where
  "column df k = map (\<lambda>r. cell_at r k) (rows df)"

text \<open>
  \<^verbatim>\<open>pd.DataFrame(records)\<close> for a list of dictionaries: the columns are the keys, in the order
  in which they first appear.
\<close>

definition DataFrame :: "'f cell dict list \<Rightarrow> 'f frame" where
  "DataFrame records =
     \<lparr>columns = rev (remdups (rev (concat (map (map fst) records)))), rows = records\<rparr>"

text \<open>
  \<^verbatim>\<open>df.empty\<close>: one of the two axes has length 0.
\<close>

definition frame_empty :: "'f frame \<Rightarrow> bool" where
  "frame_empty df = (rows df = [] \<or> columns df = [])"

text \<open>
  \<^verbatim>\<open>series.dropna()\<close>.
\<close>

definition dropna :: "'f cell list \<Rightarrow> 'f cell list" where
  "dropna cs = filter (\<lambda>c. c \<noteq> Null) cs"

text \<open>
  \<^verbatim>\<open>
  df["timestamp"] = pd.to_datetime(df["timestamp"], errors="coerce")
  df = df.dropna(subset=["timestamp"])
  \<close>
  \<^verbatim>\<open>pd.to_datetime\<close> is a parameter of the model: \<open>to_datetime col i\<close> is the timestamp it
  gives for position \<open>i\<close> of the column \<open>col\<close>, and \<open>None\<close> where it coerces to \<^verbatim>\<open>NaT\<close>.
\<close>

definition normalize_timestamp :: "('f cell list \<Rightarrow> nat \<Rightarrow> int option) \<Rightarrow> 'f frame \<Rightarrow> 'f frame" where
  "normalize_timestamp to_datetime df =
     (let col = column df ''timestamp''
      in df\<lparr>rows :=
              List.map_filter
                (\<lambda>(i, r). case to_datetime col i of
                             None \<Rightarrow> None
                           | Some t \<Rightarrow> Some (AList.update ''timestamp'' (Time t) r))
                (enumerate 0 (rows df))\<rparr>)"

text \<open>
  \<^verbatim>\<open>df[df["instrument_id"] == instrument]\<close>.
\<close>

definition filter_instrument :: "string \<Rightarrow> 'f frame \<Rightarrow> 'f frame" where
  "filter_instrument instrument df =
     df\<lparr>rows := filter (\<lambda>r. cell_at r ''instrument_id'' = Str instrument) (rows df)\<rparr>"

text \<open>
  \<^verbatim>\<open>series.value_counts()\<close>: each value that is not missing with the number of its
  occurrences, listed here in the order of first appearance (pandas prints the rows by
  decreasing count).
\<close>

definition value_counts :: "'f cell list \<Rightarrow> ('f cell \<times> nat) list" where
  "value_counts cs =
     (let vs = dropna cs in map (\<lambda>v. (v, count_list vs v)) (rev (remdups (rev vs))))"

subsection \<open>What the scripts print\<close>

text \<open>
  A line of text, a labelled count, a labelled number (\<open>None\<close> is printed as \<^verbatim>\<open>nan\<close>), or a
  table of counts. A run that raises keeps no output in the model.
\<close>

datatype 'f printout =
    Print string
  | PrintCount string nat
  | PrintNumber string "real option"
  | PrintCounts "('f cell \<times> nat) list"

text \<open>
  The numbers of a series without missing values; \<open>None\<close> when a cell is not a number, where
  the reductions of pandas or the \<^verbatim>\<open>.3f\<close> formatting raise \<^verbatim>\<open>TypeError\<close> (the model keeps
  the name of the column in place of the message).
\<close>

fun numbers :: "real cell list \<Rightarrow> real list option" where
  "numbers [] = Some []"
| "numbers (Num v # cs) = map_option ((#) v) (numbers cs)"
| "numbers (c # cs) = None"

definition mean :: "real list \<Rightarrow> real option" where
  "mean vals = (if vals = [] then None else Some (sum_list vals / real (length vals)))"

definition std :: "real list \<Rightarrow> real option" where
  "std vals =
     (if length vals < 2 then None
      else Some (sqrt ((\<Sum>v\<leftarrow>vals. (v - sum_list vals / real (length vals))\<^sup>2)
                       / real (length vals - 1))))"

definition minimum :: "real list \<Rightarrow> real option" where
  "minimum vals = (case vals of [] \<Rightarrow> None | v # vs \<Rightarrow> Some (fold min vs v))"

definition maximum :: "real list \<Rightarrow> real option" where
  "maximum vals = (case vals of [] \<Rightarrow> None | v # vs \<Rightarrow> Some (fold max vs v))"

text \<open>
  Python's test \<^verbatim>\<open>if args.instrument:\<close>: an option that was not given and the empty string
  both ask for no filter.
\<close>

definition requested :: "string option \<Rightarrow> bool" where
  "requested arg = (case arg of None \<Rightarrow> False | Some s \<Rightarrow> s \<noteq> [])"

section \<open>\<^verbatim>\<open>log_trend_analyzer.py\<close>: loading and the run\<close>

text \<open>
  \<^verbatim>\<open>
  df = pd.DataFrame(records)
  if df.empty:
      raise ValueError("No valid log lines parsed.")
  df["timestamp"] = pd.to_datetime(df["timestamp"], errors="coerce")
  df = df.dropna(subset=["timestamp"])
  return df
  \<close>
  The file is the list of its lines.
\<close>

definition load_log ::
  "('f cell list \<Rightarrow> nat \<Rightarrow> int option) \<Rightarrow> (string \<Rightarrow> 'f option) \<Rightarrow> string list \<Rightarrow> error + 'f frame" where
  "load_log to_datetime float lines =
     (let df = DataFrame (parse_lines float lines)
      in if frame_empty df then Inl (ValueError ''No valid log lines parsed.'')
         else Inr (normalize_timestamp to_datetime df))"

text \<open>
  \<^verbatim>\<open>main\<close> up to the plots, which are outside the model (rendering, and the notices the
  plotting functions print):
  \<^verbatim>\<open>
  df = load_log(args.log_file)
  if args.instrument:
      df = df[df["instrument_id"] == args.instrument]
  if df.empty:
      raise SystemExit("No data after filtering. Check instrument_id or file content.")
  print("Log levels:")
  print(df["level"].value_counts())
  print()
  \<close>
\<close>

definition main_log ::
  "('f cell list \<Rightarrow> nat \<Rightarrow> int option) \<Rightarrow> (string \<Rightarrow> 'f option) \<Rightarrow> string list \<Rightarrow> string option
     \<Rightarrow> error + 'f printout list" where
  "main_log to_datetime float lines instrument =
     (case load_log to_datetime float lines of
        Inl e \<Rightarrow> Inl e
      | Inr loaded \<Rightarrow>
          (let df = (case instrument of
                       None \<Rightarrow> loaded
                     | Some i \<Rightarrow> if requested instrument then filter_instrument i loaded else loaded)
           in if frame_empty df
              then Inl (SystemExit ''No data after filtering. Check instrument_id or file content.'')
              else Inr [Print ''Log levels:'', PrintCounts (value_counts (column df ''level'')),
                        Print []]))"

section \<open>\<^verbatim>\<open>csv_trend_analyzer.py\<close>\<close>

text \<open>
  The table \<^verbatim>\<open>pd.read_csv(path)\<close> returns is the input of the model.
  \<^verbatim>\<open>
  def load_csv(path):
      df = pd.read_csv(path)
      if "timestamp" not in df.columns:
          raise ValueError("CSV must contain a 'timestamp' column")
      df["timestamp"] = pd.to_datetime(df["timestamp"], errors="coerce")
      df = df.dropna(subset=["timestamp"])
      return df
  \<close>
\<close>

definition load_csv :: "(real cell list \<Rightarrow> nat \<Rightarrow> int option) \<Rightarrow> real frame \<Rightarrow> error + real frame" where
  "load_csv to_datetime read_csv =
     (if ''timestamp'' \<notin> set (columns read_csv)
      then Inl (ValueError ''CSV must contain a 'timestamp' column'')
      else Inr (normalize_timestamp to_datetime read_csv))"

text \<open>
  \<^verbatim>\<open>
  def summarize_value(df):
      if "value" not in df.columns:
          print("No 'value' column found; skipping numeric summary.")
          return
      vals = df["value"].dropna()
      print("Value statistics:")
      print(f"  Count: {vals.count()}")
      print(f"  Mean:  {vals.mean():.3f}")
      print(f"  Std:   {vals.std():.3f}")
      print(f"  Min:   {vals.min():.3f}")
      print(f"  Max:   {vals.max():.3f}")
      print()
  \<close>
\<close>

definition summarize_value :: "real frame \<Rightarrow> error + real printout list" where
  "summarize_value df =
     (if ''value'' \<notin> set (columns df)
      then Inr [Print ''No 'value' column found; skipping numeric summary.'']
      else (case numbers (dropna (column df ''value'')) of
              None \<Rightarrow> Inl (TypeError ''value'')
            | Some vals \<Rightarrow>
                Inr [Print ''Value statistics:'',
                     PrintCount ''  Count: '' (length vals),
                     PrintNumber ''  Mean:  '' (mean vals),
                     PrintNumber ''  Std:   '' (std vals),
                     PrintNumber ''  Min:   '' (minimum vals),
                     PrintNumber ''  Max:   '' (maximum vals),
                     Print []]))"

text \<open>
  \<^verbatim>\<open>
  def summarize_status(df):
      if "status" not in df.columns:
          print("No 'status' column found; skipping status summary.")
          return
      print("Status counts:")
      print(df["status"].value_counts())
      print()
  \<close>
\<close>

definition summarize_status :: "real frame \<Rightarrow> real printout list" where
  "summarize_status df =
     (if ''status'' \<notin> set (columns df)
      then [Print ''No 'status' column found; skipping status summary.'']
      else [Print ''Status counts:'', PrintCounts (value_counts (column df ''status'')),
            Print []])"

text \<open>
  The filter of the CSV and JSON scripts:
  \<^verbatim>\<open>
  if args.instrument:
      if "instrument_id" not in df.columns:
          raise SystemExit("No 'instrument_id' column in data to filter on.")
      df = df[df["instrument_id"] == args.instrument]
  \<close>
\<close>

definition select_instrument :: "string option \<Rightarrow> 'f frame \<Rightarrow> error + 'f frame" where
  "select_instrument instrument df =
     (case instrument of
        None \<Rightarrow> Inr df
      | Some i \<Rightarrow>
          if requested instrument
          then (if ''instrument_id'' \<notin> set (columns df)
                then Inl (SystemExit ''No 'instrument_id' column in data to filter on.'')
                else Inr (filter_instrument i df))
          else Inr df)"

text \<open>
  \<^verbatim>\<open>main\<close> up to the plots:
  \<^verbatim>\<open>
  df = load_csv(args.csv_file)
  if args.instrument: ...
  if df.empty:
      raise SystemExit("No data after filtering. Check instrument_id.")
  summarize_value(df)
  summarize_status(df)
  \<close>
\<close>

definition main_csv ::
  "(real cell list \<Rightarrow> nat \<Rightarrow> int option) \<Rightarrow> real frame \<Rightarrow> string option \<Rightarrow> error + real printout list" where
  "main_csv to_datetime read_csv instrument =
     (case load_csv to_datetime read_csv of
        Inl e \<Rightarrow> Inl e
      | Inr loaded \<Rightarrow>
          (case select_instrument instrument loaded of
             Inl e \<Rightarrow> Inl e
           | Inr df \<Rightarrow>
               if frame_empty df
               then Inl (SystemExit ''No data after filtering. Check instrument_id.'')
               else (case summarize_value df of
                       Inl e \<Rightarrow> Inl e
                     | Inr printed \<Rightarrow> Inr (printed @ summarize_status df))))"

section \<open>\<^verbatim>\<open>json_trend_analyzer.py\<close>\<close>

text \<open>
  The list of flat objects \<^verbatim>\<open>json.load(f)\<close> returns is the input of the model.
  \<^verbatim>\<open>
  def load_json(path):
      with path.open("r", encoding="utf-8") as f:
          data = json.load(f)
      df = pd.DataFrame(data)
      if "timestamp" not in df.columns:
          raise ValueError("JSON must contain a 'timestamp' field")
      df["timestamp"] = pd.to_datetime(df["timestamp"], errors="coerce")
      df = df.dropna(subset=["timestamp"])
      return df
  \<close>
\<close>

definition load_json ::
  "(real cell list \<Rightarrow> nat \<Rightarrow> int option) \<Rightarrow> real cell dict list \<Rightarrow> error + real frame" where
  "load_json to_datetime data =
     (let df = DataFrame data
      in if ''timestamp'' \<notin> set (columns df)
         then Inl (ValueError ''JSON must contain a 'timestamp' field'')
         else Inr (normalize_timestamp to_datetime df))"

text \<open>
  \<^verbatim>\<open>
  def summarize(df, metric):
      if metric not in df.columns:
          raise ValueError(f"Metric '{metric}' not found in data")
      series = df[metric].dropna()
      print(f"Metric: {metric}")
      print(f"Count:  {series.count()}")
      print(f"Mean:   {series.mean():.3f}")
      print(f"Std:    {series.std():.3f}")
      print(f"Min:    {series.min():.3f}")
      print(f"Max:    {series.max():.3f}")
      print()
  \<close>
\<close>

definition summarize :: "real frame \<Rightarrow> string \<Rightarrow> error + real printout list" where
  "summarize df metric =
     (if metric \<notin> set (columns df)
      then Inl (ValueError (''Metric '' @ [CHR 0x27] @ metric @ [CHR 0x27] @ '' not found in data''))
      else (case numbers (dropna (column df metric)) of
              None \<Rightarrow> Inl (TypeError metric)
            | Some series \<Rightarrow>
                Inr [Print (''Metric: '' @ metric),
                     PrintCount ''Count:  '' (length series),
                     PrintNumber ''Mean:   '' (mean series),
                     PrintNumber ''Std:    '' (std series),
                     PrintNumber ''Min:    '' (minimum series),
                     PrintNumber ''Max:    '' (maximum series),
                     Print []]))"

text \<open>
  \<^verbatim>\<open>main\<close> up to the plot:
  \<^verbatim>\<open>
  df = load_json(args.json_file)
  if args.instrument: ...
  if df.empty:
      raise SystemExit("No data after filtering. Check metric/instrument names.")
  summarize(df, args.metric)
  \<close>
\<close>

definition main_json ::
  "(real cell list \<Rightarrow> nat \<Rightarrow> int option) \<Rightarrow> real cell dict list \<Rightarrow> string \<Rightarrow> string option
     \<Rightarrow> error + real printout list" where
  "main_json to_datetime data metric instrument =
     (case load_json to_datetime data of
        Inl e \<Rightarrow> Inl e
      | Inr loaded \<Rightarrow>
          (case select_instrument instrument loaded of
             Inl e \<Rightarrow> Inl e
           | Inr df \<Rightarrow>
               if frame_empty df
               then Inl (SystemExit ''No data after filtering. Check metric/instrument names.'')
               else summarize df metric))"

section \<open>Instances of the parameters, for evaluation\<close>

text \<open>
  A \<^verbatim>\<open>float\<close> that knows three numerals and rejects every other string, and a
  \<^verbatim>\<open>to_datetime\<close> that knows the timestamps of the examples in the scripts' documentation
  and coerces every other string to \<^verbatim>\<open>NaT\<close>.
\<close>

definition sample_float :: "string \<Rightarrow> real option" where
  "sample_float s = map_of [(''101.3'', 1013 / 10), (''98.1'', 981 / 10), (''7'', 7)] s"

definition sample_to_datetime :: "'f cell list \<Rightarrow> nat \<Rightarrow> int option" where
  "sample_to_datetime col i =
     (if i < length col
      then (case col ! i of
              Str s \<Rightarrow> map_of [(''2025-02-01 10:00:01'', 1738404001000000000),
                               (''2025-02-01 10:05:02'', 1738404302000000000),
                               (''2025-02-01 10:10:15'', 1738404615000000000)] s
            | Num f \<Rightarrow> None
            | Time t \<Rightarrow> Some t
            | Null \<Rightarrow> None)
      else None)"

section \<open>Properties of the moving average\<close>

subsection \<open>Lemmas on the correlation\<close>

lemma upto_shift: "map (\<lambda>j. lo + int j) [0..<n] = [lo .. lo + int n - 1]"
proof (induction n)
  case 0
  then show ?case by simp
next
  case (Suc n)
  have "[lo .. lo + int (Suc n) - 1] = [lo .. lo + int n - 1] @ [lo + int n]"
    using upto_rec2 [of lo "lo + int n"] by simp
  with Suc show ?case by simp
qed

lemma window_sum:
  assumes "0 < n"
  shows "(\<Sum>j\<leftarrow>[0..<n].
            (let p = int i - int (n div 2) + int j
             in if 0 \<le> p \<and> p < int (length x) then x ! nat p * replicate n c ! j else 0))
         = (\<Sum>p\<leftarrow>[int i - int (n div 2) .. int i + (int n - 1) div 2]. zero_padded x p) * c"
proof -
  have "(\<Sum>j\<leftarrow>[0..<n].
            (let p = int i - int (n div 2) + int j
             in if 0 \<le> p \<and> p < int (length x) then x ! nat p * replicate n c ! j else 0))
      = (\<Sum>j\<leftarrow>[0..<n]. zero_padded x (int i - int (n div 2) + int j) * c)"
    by (rule arg_cong [where f = sum_list], rule map_cong) (auto simp: zero_padded_def Let_def)
  also have "\<dots> = (\<Sum>p\<leftarrow>map (\<lambda>j. (int i - int (n div 2)) + int j) [0..<n]. zero_padded x p) * c"
    by (simp add: sum_list_mult_const o_def)
  also have "map (\<lambda>j. (int i - int (n div 2)) + int j) [0..<n]
      = [int i - int (n div 2) .. int i - int (n div 2) + int n - 1]"
    by (rule upto_shift)
  also have "int i - int (n div 2) + int n - 1 = int i + (int n - 1) div 2"
    using assms by (simp add: zdiv_int)
  finally show ?thesis .
qed

lemma uniform_window: "map (\<lambda>one. one / of_int W) (ones n) = replicate n (1 / of_int W)"
  by (simp add: ones_def)

lemma moving_average_window_fits:
  assumes "1 \<le> W" and "nat W \<le> length x"
  shows "moving_average x W = Inr (correlate_same x (replicate (nat W) (1 / of_int W)))"
proof -
  have "x \<noteq> []" using assms by auto
  with assms show ?thesis
    by (simp add: moving_average_def convolve_same_def uniform_window del: of_int_less_1_iff)
qed

lemma correlate_same_uniform:
  assumes "1 \<le> W"
  shows "correlate_same x (replicate (nat W) (1 / of_int W))
         = map (centered_window_mean x W) [0..<length x]"
proof -
  have n: "0 < nat W" "int (nat W) = W" using assms by simp_all
  show ?thesis
    unfolding correlate_same_def centered_window_mean_def
    using window_sum [OF n(1), of _ x "1 / of_int W"] n(2) by (simp add: zdiv_int)
qed

lemma length_correlate_same: "length (correlate_same a w) = length a"
  by (simp add: correlate_same_def)

lemma moving_average_returns:
  assumes "1 \<le> W" and "x \<noteq> []"
  shows "\<exists>y. moving_average x W = Inr y \<and> length y = max (length x) (nat W)"
proof -
  have "ones (nat W) \<noteq> []" using assms by (simp add: ones_def)
  with assms show ?thesis
    by (auto simp: moving_average_def convolve_same_def Let_def length_correlate_same ones_def
             simp del: of_int_less_1_iff)
qed

subsection \<open>Claims on the moving average\<close>

text \<open>
  C1 (counterexample). The claim promises, for every input and every window size \<open>W \<ge> 1\<close>,
  a sequence of the input's length holding the centred zero-padded means. On the empty
  sequence the function raises; with three samples and a window of five it returns five
  values, and they are not the three centred means.
\<close>

theorem moving_average_long_window_counterexample:
  "moving_average [] 3 = Inl (ValueError ''v cannot be empty'')
   \<and> moving_average [1, 2, 3] 5 = Inr [3 / 5, 6 / 5, 6 / 5, 6 / 5, 1]
   \<and> map (centered_window_mean [1, 2, 3] 5) [0..<length [1, 2, 3 :: real]] = [6 / 5, 6 / 5, 6 / 5]"
  by code_simp

text \<open>
  C1 (as amended). In exact arithmetic: for every input sequence \<open>x\<close> of length \<open>N\<close> and
  every window size \<open>W\<close> with \<open>1 \<le> W \<le> N\<close>, the moving average returns a sequence of
  length \<open>N\<close> whose entry at position \<open>i\<close> is the sum of the \<open>W\<close> samples centred on \<open>i\<close>
  (\<open>W div 2\<close> before it, \<open>(W - 1) div 2\<close> after it), with zeros substituted beyond both
  ends, divided by \<open>W\<close>. The doubles the code returns are this value up to the rounding of
  \<open>1 / W\<close>, of the products and of their sum; they need not be the correctly rounded
  quotient.
\<close>

theorem moving_average_centered:
  assumes "1 \<le> W" and "nat W \<le> length x"
  shows "moving_average x W = Inr (map (centered_window_mean x W) [0..<length x])
         \<and> length (map (centered_window_mean x W) [0..<length x]) = length x"
  using assms by (simp add: moving_average_window_fits correlate_same_uniform)

text \<open>
  C1 (witness). Five samples and a window of four: two samples before each position and one
  after it, the ends pulled toward zero. Every value here is a multiple of a quarter, which
  doubles compute without rounding.
\<close>

theorem moving_average_centered_witness:
  "moving_average [1, 2, 3, 4, 5] 4 = Inr [3 / 4, 3 / 2, 5 / 2, 7 / 2, 3]"
proof -
  have "moving_average [1, 2, 3, 4, 5] 4
        = Inr (map (centered_window_mean [1, 2, 3, 4, 5] 4) [0..<length [1, 2, 3, 4, 5 :: real]])"
    using moving_average_centered [of 4 "[1, 2, 3, 4, 5]"] by simp
  also have "map (centered_window_mean [1, 2, 3, 4, 5] 4) [0..<length [1, 2, 3, 4, 5 :: real]]
        = [3 / 4, 3 / 2, 5 / 2, 7 / 2, 3]"
    by code_simp
  finally show ?thesis .
qed

text \<open>
  C2 (the code at a failing input). With two samples and a window of three the function
  returns three values: the length of the result is that of the window, not of the input.
\<close>

theorem moving_average_length_failing_input:
  "moving_average [4, 8] 3 = Inr [4 / 3, 4, 4]"
  by code_simp

text \<open>
  C3 (counterexample). On the empty sequence the moving average with window 1 does not
  return the empty sequence: it raises.
\<close>

theorem moving_average_window_one_counterexample:
  "moving_average [] 1 = Inl (ValueError ''v cannot be empty'')"
  by code_simp

text \<open>
  C3 (as amended). For every non-empty input sequence, the moving average with window size
  1 returns the input sequence unchanged.
\<close>

theorem moving_average_window_one:
  assumes "x \<noteq> []"
  shows "moving_average x 1 = Inr x"
proof -
  have "correlate_same x [1] = map (\<lambda>i. x ! i) [0..<length x]"
    by (simp add: correlate_same_def)
  then have "correlate_same x [1] = x"
    by (simp add: map_nth)
  with assms show ?thesis
    by (simp add: moving_average_def convolve_same_def ones_def)
qed

text \<open>
  C3 (witness). Three samples and a window of one.
\<close>

theorem moving_average_window_one_witness:
  "moving_average [2, 7, 1] 1 = Inr [2, 7, 1]"
  using moving_average_window_one [of "[2, 7, 1]"] by simp

text \<open>
  C4 (counterexample). A window size of at least 1 does not exclude failure: on the empty
  sequence the convolution raises, here with window size 25.
\<close>

theorem moving_average_empty_input_counterexample:
  "1 \<le> (25 :: int) \<and> moving_average [] 25 = Inl (ValueError ''v cannot be empty'')"
  by code_simp

text \<open>
  C4 (as amended). The moving average fails with the invalid-argument error
  (\<^verbatim>\<open>ValueError("window_size must be >= 1")\<close>) exactly when the window size is below 1; with a
  window size of at least 1 it fails only on an empty input sequence (the error of the
  convolution), and returns a sequence for every non-empty input.
\<close>

theorem moving_average_failure:
  "moving_average x W = Inl e \<longleftrightarrow>
     (W < 1 \<and> e = ValueError ''window_size must be >= 1'')
     \<or> (1 \<le> W \<and> x = [] \<and> e = ValueError ''v cannot be empty'')"
proof (cases "W < 1")
  case True
  then show ?thesis by (auto simp: moving_average_def)
next
  case False
  then have W: "1 \<le> W" by simp
  show ?thesis
  proof (cases "x = []")
    case True
    have "ones (nat W) \<noteq> []" using W by (simp add: ones_def)
    with W True show ?thesis
      by (auto simp: moving_average_def convolve_same_def Let_def simp del: of_int_less_1_iff)
  next
    case False
    from moving_average_returns [OF W False] obtain y where "moving_average x W = Inr y"
      by blast
    with W False show ?thesis by simp
  qed
qed

section \<open>Properties of the line parser\<close>

subsection \<open>What \<^verbatim>\<open>LOG_PATTERN\<close> matches\<close>

text \<open>
  The pattern matches exactly the lines made of three non-empty comma-free fields, each
  followed by a comma, and a non-empty message without a newline; the groups are those four
  parts. A matching line therefore has at least three commas.
\<close>

lemma takeWhile_upto: "c \<notin> set f \<Longrightarrow> takeWhile (\<lambda>x. x \<noteq> c) (f @ c # r) = f"
  by (induction f) auto

lemma dropWhile_upto: "c \<notin> set f \<Longrightarrow> dropWhile (\<lambda>x. x \<noteq> c) (f @ c # r) = c # r"
  by (induction f) auto

lemma comma_field_Some_iff:
  "comma_field s = Some (f, r) \<longleftrightarrow> s = f @ CHR '','' # r \<and> f \<noteq> [] \<and> CHR '','' \<notin> set f"
proof
  assume a: "comma_field s = Some (f, r)"
  let ?P = "\<lambda>c. c \<noteq> CHR '',''"
  from a have f: "f = takeWhile ?P s" and ne: "f \<noteq> []" "dropWhile ?P s \<noteq> []"
    and r: "r = tl (dropWhile ?P s)"
    by (auto simp: comma_field_def Let_def split: if_splits)
  from ne(2) have "hd (dropWhile ?P s) = CHR '',''"
    using hd_dropWhile [of ?P s] by simp
  with ne(2) r have "dropWhile ?P s = CHR '','' # r"
    by (cases "dropWhile ?P s") simp_all
  then have "s = f @ CHR '','' # r"
    using takeWhile_dropWhile_id [of ?P s] f by simp
  moreover have "CHR '','' \<notin> set f"
    using f set_takeWhileD [of "CHR '',''" ?P s] by auto
  ultimately show "s = f @ CHR '','' # r \<and> f \<noteq> [] \<and> CHR '','' \<notin> set f"
    using ne(1) by simp
next
  assume "s = f @ CHR '','' # r \<and> f \<noteq> [] \<and> CHR '','' \<notin> set f"
  then show "comma_field s = Some (f, r)"
    by (simp add: comma_field_def Let_def takeWhile_upto dropWhile_upto)
qed

lemma message_group_Some_iff:
  "message_group s = Some m \<longleftrightarrow>
     (s = m \<or> s = m @ [CHR 0x0A]) \<and> m \<noteq> [] \<and> CHR 0x0A \<notin> set m"
  by (cases s rule: rev_cases) (auto simp: message_group_def Let_def split: if_splits)

lemma LOG_PATTERN_match_Some_iff:
  "LOG_PATTERN_match line = Some (t, l, i, m) \<longleftrightarrow>
     (line = t @ CHR '','' # l @ CHR '','' # i @ CHR '','' # m
        \<or> line = t @ CHR '','' # l @ CHR '','' # i @ CHR '','' # m @ [CHR 0x0A])
     \<and> t \<noteq> [] \<and> CHR '','' \<notin> set t \<and> l \<noteq> [] \<and> CHR '','' \<notin> set l
     \<and> i \<noteq> [] \<and> CHR '','' \<notin> set i \<and> m \<noteq> [] \<and> CHR 0x0A \<notin> set m"
  (is "?L \<longleftrightarrow> ?R")
proof
  assume ?L
  then obtain r1 r2 r3 where
    "comma_field line = Some (t, r1)" "comma_field r1 = Some (l, r2)"
    "comma_field r2 = Some (i, r3)" "message_group r3 = Some m"
    by (auto simp: LOG_PATTERN_match_def split: option.splits)
  then show ?R
    by (auto simp: comma_field_Some_iff message_group_Some_iff)
next
  assume ?R
  then have "\<exists>r3. comma_field line = Some (t, l @ CHR '','' # i @ CHR '','' # r3)
        \<and> comma_field (l @ CHR '','' # i @ CHR '','' # r3) = Some (l, i @ CHR '','' # r3)
        \<and> comma_field (i @ CHR '','' # r3) = Some (i, r3) \<and> message_group r3 = Some m"
    by (auto simp: comma_field_Some_iff message_group_Some_iff)
  then show ?L
    by (auto simp: LOG_PATTERN_match_def)
qed

lemma LOG_PATTERN_match_three_commas:
  assumes "LOG_PATTERN_match line \<noteq> None"
  shows "3 \<le> count_list line (CHR '','')"
proof -
  from assms obtain t l i m where "LOG_PATTERN_match line = Some (t, l, i, m)"
    by auto
  then show ?thesis
    by (auto simp: LOG_PATTERN_match_Some_iff)
qed

lemma LOG_PATTERN_match_Nil: "LOG_PATTERN_match [] = None"
  by (simp add: LOG_PATTERN_match_def comma_field_def)

lemma map_filter_skip:
  "f y = None \<Longrightarrow> List.map_filter f (xs @ y # zs) = List.map_filter f (xs @ zs)"
  by (induction xs) (auto split: option.splits)

lemma parse_line_unmatched:
  "LOG_PATTERN_match (strip line) = None \<Longrightarrow> parse_line float line = None"
  by (simp add: parse_line_def Let_def)

lemma parse_line_matched:
  assumes "LOG_PATTERN_match (strip line) = Some (timestamp, level, instrument_id, message)"
  shows "parse_line float line =
           Some (dict_update (base_record timestamp level instrument_id message)
                   (map (\<lambda>(k, v). (k, optional_cell v)) (parse_message float message)))"
proof -
  have "strip line \<noteq> []"
    using assms LOG_PATTERN_match_Nil by auto
  with assms show ?thesis
    by (simp add: parse_line_def Let_def)
qed

subsection \<open>The fields of a message\<close>

text \<open>
  The dictionary \<^verbatim>\<open>parse_message\<close> builds maps a key to what \<^verbatim>\<open>float\<close> makes of the value
  of the last token that carries the key. Its keys are distinct, and every token is made of
  characters of the message.
\<close>

lemma find_snoc:
  "find P (xs @ [x]) = (case find P xs of None \<Rightarrow> (if P x then Some x else None) | Some y \<Rightarrow> Some y)"
  by (induction xs) auto

lemma last_token_for_Cons:
  "last_token_for k (t # ts) =
     (case last_token_for k ts of
        None \<Rightarrow> (if CHR ''='' \<in> set t \<and> token_key t = k then Some t else None)
      | Some u \<Rightarrow> Some u)"
  by (simp add: last_token_for_def find_snoc)

lemma fold_parse_token:
  "map_of (fold (parse_token float) tokens acc) k =
     (case last_token_for k tokens of
        None \<Rightarrow> map_of acc k
      | Some u \<Rightarrow> Some (float (token_value u)))"
proof (induction tokens arbitrary: acc)
  case Nil
  show ?case by (simp add: last_token_for_def)
next
  case (Cons t ts)
  have step: "map_of (parse_token float t acc) k =
      (if CHR ''='' \<in> set t \<and> token_key t = k then Some (float (token_value t)) else map_of acc k)"
    by (simp add: parse_token_def AList.update_conv')
  have "map_of (fold (parse_token float) (t # ts) acc) k =
      (case last_token_for k ts of
         None \<Rightarrow> map_of (parse_token float t acc) k
       | Some u \<Rightarrow> Some (float (token_value u)))"
    by (simp add: Cons.IH)
  then show ?case
    by (simp add: step last_token_for_Cons split: option.splits)
qed

lemma last_token_for_member:
  assumes "t \<in> set tokens" and "CHR ''='' \<in> set t"
  shows "\<exists>u. last_token_for (token_key t) tokens = Some u"
proof -
  have "\<exists>x\<in>set (rev tokens). CHR ''='' \<in> set x \<and> token_key x = token_key t"
    using assms by auto
  then show ?thesis
    unfolding last_token_for_def by (cases "find (\<lambda>u. CHR ''='' \<in> set u \<and> token_key u = token_key t) (rev tokens)") (auto simp: find_None_iff)
qed

lemma split_run_chars:
  "t \<in> set (split_run in_run piece s) \<Longrightarrow> set t \<subseteq> set piece \<union> set s"
proof (induction s arbitrary: in_run piece)
  case Nil
  then show ?case by auto
next
  case (Cons c cs)
  then show ?case
    by (fastforce split: if_splits)
qed

lemma strip_chars: "set (strip s) \<subseteq> set s"
proof -
  have "set (strip s) \<subseteq> set (dropWhile isspace s)"
    unfolding strip_def using set_dropWhileD [of _ isspace "rev (dropWhile isspace s)"] by auto
  also have "\<dots> \<subseteq> set s"
    using set_dropWhileD [of _ isspace s] by auto
  finally show ?thesis .
qed

lemma token_chars:
  assumes "t \<in> set (re_split (strip message))"
  shows "set t \<subseteq> set message"
  using split_run_chars [of t False "[]" "strip message"] strip_chars [of message] assms
  by (auto simp: re_split_def)

lemma parse_message_lookup:
  assumes "t \<in> set (re_split (strip message))" and "CHR ''='' \<in> set t"
  shows "map_of (parse_message float message) k =
           map_option (\<lambda>u. float (token_value u)) (last_token_for k (re_split (strip message)))"
proof -
  have "CHR ''='' \<in> set message"
    using token_chars [OF assms(1)] assms(2) by auto
  then show ?thesis
    by (simp add: parse_message_def fold_parse_token split: option.splits)
qed

lemma distinct_fold_parse_token:
  "distinct (map fst acc) \<Longrightarrow> distinct (map fst (fold (parse_token float) tokens acc))"
  by (induction tokens arbitrary: acc) (simp_all add: parse_token_def AList.distinct_update)

lemma distinct_parse_message: "distinct (map fst (parse_message float message))"
  by (simp add: parse_message_def distinct_fold_parse_token)

subsection \<open>The record of a line\<close>

text \<open>
  \<^verbatim>\<open>record.update(msg_fields)\<close>: a key of the message takes precedence over a base field.
\<close>

lemma map_of_dict_update:
  assumes "distinct (map fst e)"
  shows "map_of (dict_update d e) k = (case map_of e k of None \<Rightarrow> map_of d k | Some v \<Rightarrow> Some v)"
  using assms unfolding dict_update_def
proof (induction e arbitrary: d)
  case Nil
  then show ?case by simp
next
  case (Cons p e)
  obtain k' v' where p: "p = (k', v')" by (cases p)
  from Cons.prems p have d: "distinct (map fst e)" and k': "map_of e k' = None"
    by (auto simp: map_of_eq_None_iff)
  show ?case
    using k' by (simp add: p Cons.IH [OF d] AList.update_conv' split: option.splits)
qed

lemma map_fst_cells: "map fst (map (\<lambda>(k, v). (k, f v)) xs) = map fst xs"
  by (induction xs) auto

lemma record_lookup:
  "map_of (dict_update base (map (\<lambda>(k, v). (k, optional_cell v)) (parse_message float message))) k =
     (case map_of (parse_message float message) k of
        None \<Rightarrow> map_of base k
      | Some v \<Rightarrow> Some (optional_cell v))"
proof -
  have d: "distinct (map fst (map (\<lambda>(k, v). (k, optional_cell v)) (parse_message float message)))"
    by (simp only: map_fst_cells distinct_parse_message)
  show ?thesis
    unfolding map_of_dict_update [OF d]
    by (cases "map_of (parse_message float message) k") (simp_all add: map_of_map)
qed

lemma base_record_not_optional:
  "map_of (base_record timestamp level instrument_id message) k \<noteq> Some (optional_cell v)"
  by (cases v) (auto simp: base_record_def optional_cell_def)

subsection \<open>Claims on the line parser\<close>

text \<open>
  C5. A line that \<^verbatim>\<open>LOG_PATTERN\<close> does not match (after \<^verbatim>\<open>strip\<close>) gives no record, and the
  loader and the run behave as if the line were not in the file: the lines before and after
  it are read as before, and no error is signalled on the line's account.
\<close>

theorem load_log_skips_unmatched:
  assumes "LOG_PATTERN_match (strip line) = None"
  shows "parse_line float line = None
         \<and> parse_lines float (before @ line # after) = parse_lines float (before @ after)
         \<and> load_log to_datetime float (before @ line # after)
             = load_log to_datetime float (before @ after)
         \<and> main_log to_datetime float (before @ line # after) instrument
             = main_log to_datetime float (before @ after) instrument"
proof -
  have skip: "parse_line float line = None"
    using assms by (rule parse_line_unmatched)
  then have "parse_lines float (before @ line # after) = parse_lines float (before @ after)"
    unfolding parse_lines_def by (rule map_filter_skip)
  with skip show ?thesis
    by (simp add: load_log_def main_log_def)
qed

text \<open>
  C5 (witness). A line with a single comma between two well-formed lines.
\<close>

theorem load_log_skips_unmatched_witness:
  "LOG_PATTERN_match (strip ''pump stalled, no fields'') = None
   \<and> parse_line sample_float ''pump stalled, no fields'' = None
   \<and> load_log sample_to_datetime sample_float
         [''2025-02-01 10:00:01,INFO,IVD-001,pressure_kpa=101.3'', ''pump stalled, no fields'',
          ''2025-02-01 10:10:15,ERROR,IVD-002,pump_stall'']
       = load_log sample_to_datetime sample_float
         [''2025-02-01 10:00:01,INFO,IVD-001,pressure_kpa=101.3'',
          ''2025-02-01 10:10:15,ERROR,IVD-002,pump_stall'']"
proof -
  have m: "LOG_PATTERN_match (strip ''pump stalled, no fields'') = None"
    by code_simp
  from load_log_skips_unmatched [OF m, of sample_float
      "[''2025-02-01 10:00:01,INFO,IVD-001,pressure_kpa=101.3'']"
      "[''2025-02-01 10:10:15,ERROR,IVD-002,pump_stall'']" sample_to_datetime None]
  show ?thesis
    using m by simp
qed

text \<open>
  C6 (counterexample). The message \<^verbatim>\<open>t=x t=7\<close> contains the token \<^verbatim>\<open>t=x\<close>, whose value does
  not parse, yet the parsed fields map \<^verbatim>\<open>t\<close> to 7 and not to null: a later token with the
  same key replaces the null.
\<close>

theorem parse_message_last_wins_counterexample:
  "''t=x'' \<in> set (re_split (strip ''t=x t=7'')) \<and> sample_float (token_value ''t=x'') = None
   \<and> map_of (parse_message sample_float ''t=x t=7'') ''t'' = Some (Some 7)"
  by code_simp

text \<open>
  C6 (as amended). For every message containing a token \<^verbatim>\<open>key=value\<close> whose value does not
  parse as a floating-point number, parsing does not fail and the parsed fields contain the
  key; the key is mapped to what the last token carrying that key gives (last occurrence
  wins), so it is mapped to null when the unparsable token is the last one with that key.
\<close>

theorem parse_message_unparsable_value:
  assumes "token \<in> set (re_split (strip message))"
    and "CHR ''='' \<in> set token"
    and "float (token_value token) = None"
  shows "(\<exists>u. last_token_for (token_key token) (re_split (strip message)) = Some u
            \<and> map_of (parse_message float message) (token_key token) = Some (float (token_value u)))
         \<and> (last_token_for (token_key token) (re_split (strip message)) = Some token
              \<longrightarrow> map_of (parse_message float message) (token_key token) = Some None)"
proof -
  from last_token_for_member [OF assms(1,2)] obtain u
    where u: "last_token_for (token_key token) (re_split (strip message)) = Some u"
    by blast
  then show ?thesis
    using assms(3) by (auto simp: parse_message_lookup [OF assms(1,2)])
qed

text \<open>
  C6 (witness). The only token with the key \<^verbatim>\<open>pressure_kpa\<close> has the value \<^verbatim>\<open>bad\<close>.
\<close>

theorem parse_message_unparsable_witness:
  "map_of (parse_message sample_float ''pump pressure_kpa=bad, temp=7'') ''pressure_kpa'' = Some None"
proof -
  have t: "''pressure_kpa=bad'' \<in> set (re_split (strip ''pump pressure_kpa=bad, temp=7''))"
    by code_simp
  have e: "CHR ''='' \<in> set ''pressure_kpa=bad''"
    by simp
  have f: "sample_float (token_value ''pressure_kpa=bad'') = None"
    by code_simp
  have l: "last_token_for (token_key ''pressure_kpa=bad'') (re_split (strip ''pump pressure_kpa=bad, temp=7''))
           = Some ''pressure_kpa=bad''"
    by code_simp
  have k: "token_key ''pressure_kpa=bad'' = ''pressure_kpa''"
    by code_simp
  from parse_message_unparsable_value [where float = sample_float, OF t e f] l
  have "map_of (parse_message sample_float ''pump pressure_kpa=bad, temp=7'')
          (token_key ''pressure_kpa=bad'') = Some None"
    by blast
  then show ?thesis
    unfolding k .
qed

text \<open>
  C10. For every line that \<^verbatim>\<open>LOG_PATTERN\<close> matches and every \<^verbatim>\<open>key=value\<close> token of its
  message, the record of the line maps the key to the float or null read from the message
  (from the last token with that key) and not to what the base record holds for the key; a
  key that is one of \<^verbatim>\<open>timestamp\<close>, \<^verbatim>\<open>level\<close>, \<^verbatim>\<open>instrument_id\<close>, \<^verbatim>\<open>message\<close> thereby loses
  the string the line gave it.
\<close>

theorem message_token_overwrites_field:
  assumes "LOG_PATTERN_match (strip line) = Some (timestamp, level, instrument_id, message)"
    and "token \<in> set (re_split (strip message))"
    and "CHR ''='' \<in> set token"
  shows "(\<exists>r u. parse_line float line = Some r
            \<and> last_token_for (token_key token) (re_split (strip message)) = Some u
            \<and> map_of r (token_key token) = Some (optional_cell (float (token_value u)))
            \<and> map_of r (token_key token)
                \<noteq> map_of (base_record timestamp level instrument_id message) (token_key token))
         \<and> (token_key token \<in> set [''timestamp'', ''level'', ''instrument_id'', ''message'']
              \<longrightarrow> (\<exists>s. map_of (base_record timestamp level instrument_id message :: 'a cell dict)
                          (token_key token) = Some (Str s)))"
proof -
  from last_token_for_member [OF assms(2,3)] obtain u
    where u: "last_token_for (token_key token) (re_split (strip message)) = Some u"
    by blast
  let ?r = "dict_update (base_record timestamp level instrument_id message)
              (map (\<lambda>(k, v). (k, optional_cell v)) (parse_message float message))"
  have r: "parse_line float line = Some ?r"
    using assms(1) by (rule parse_line_matched)
  have "map_of (parse_message float message) (token_key token) = Some (float (token_value u))"
    by (simp add: parse_message_lookup [OF assms(2,3)] u)
  then have look: "map_of ?r (token_key token) = Some (optional_cell (float (token_value u)))"
    by (simp add: record_lookup)
  have differs: "map_of ?r (token_key token)
      \<noteq> map_of (base_record timestamp level instrument_id message) (token_key token)"
    unfolding look
    using base_record_not_optional
      [of timestamp level instrument_id message "token_key token" "float (token_value u)"]
    by simp
  have base: "token_key token \<in> set [''timestamp'', ''level'', ''instrument_id'', ''message'']
      \<longrightarrow> (\<exists>s. map_of (base_record timestamp level instrument_id message :: 'a cell dict)
                  (token_key token) = Some (Str s))"
    by (auto simp: base_record_def)
  from r u look differs have "\<exists>r u. parse_line float line = Some r
            \<and> last_token_for (token_key token) (re_split (strip message)) = Some u
            \<and> map_of r (token_key token) = Some (optional_cell (float (token_value u)))
            \<and> map_of r (token_key token)
                \<noteq> map_of (base_record timestamp level instrument_id message) (token_key token)"
    by blast
  with base show ?thesis
    by blast
qed

text \<open>
  C10 (witness). The message \<^verbatim>\<open>timestamp=xyz level=7\<close> replaces the line's timestamp by null
  and its level by 7.
\<close>

theorem message_token_overwrites_field_witness:
  "parse_line sample_float ''2025-02-01 10:00:01,INFO,IVD-001,timestamp=xyz level=7''
     = Some [(''timestamp'', Null), (''level'', Num 7), (''instrument_id'', Str ''IVD-001''),
             (''message'', Str ''timestamp=xyz level=7'')]
   \<and> map_of (base_record ''2025-02-01 10:00:01'' ''INFO'' ''IVD-001'' ''timestamp=xyz level=7'' :: real cell dict)
         ''timestamp'' = Some (Str ''2025-02-01 10:00:01'')"
proof -
  have m: "LOG_PATTERN_match (strip ''2025-02-01 10:00:01,INFO,IVD-001,timestamp=xyz level=7'')
           = Some (''2025-02-01 10:00:01'', ''INFO'', ''IVD-001'', ''timestamp=xyz level=7'')"
    by code_simp
  have t: "''timestamp=xyz'' \<in> set (re_split (strip ''timestamp=xyz level=7''))"
    by code_simp
  have e: "CHR ''='' \<in> set ''timestamp=xyz''"
    by simp
  from message_token_overwrites_field [OF m t e, of sample_float]
  obtain r where "parse_line sample_float ''2025-02-01 10:00:01,INFO,IVD-001,timestamp=xyz level=7'' = Some r"
    by blast
  moreover have "parse_line sample_float ''2025-02-01 10:00:01,INFO,IVD-001,timestamp=xyz level=7''
     = Some [(''timestamp'', Null), (''level'', Num 7), (''instrument_id'', Str ''IVD-001''),
             (''message'', Str ''timestamp=xyz level=7'')]"
    by code_simp
  moreover have "map_of (base_record ''2025-02-01 10:00:01'' ''INFO'' ''IVD-001'' ''timestamp=xyz level=7'' :: real cell dict)
         ''timestamp'' = Some (Str ''2025-02-01 10:00:01'')"
    by (simp add: base_record_def)
  ultimately show ?thesis by simp
qed

section \<open>Properties of the loaders and the runs\<close>

subsection \<open>Empty tables\<close>

text \<open>
  Dropping rows keeps the columns; a table without rows is empty and stays empty under the
  instrument filter; a table made of the records of parsed log lines is empty only when
  there is no record.
\<close>

lemma columns_normalize_timestamp [simp]:
  "columns (normalize_timestamp to_datetime df) = columns df"
  by (simp add: normalize_timestamp_def Let_def)

lemma rows_filter_instrument_Nil:
  "rows df = [] \<Longrightarrow> rows (filter_instrument i df) = []"
  by (simp add: filter_instrument_def)

lemma columns_filter_instrument [simp]: "columns (filter_instrument i df) = columns df"
  by (simp add: filter_instrument_def)

lemma frame_empty_rows: "rows df = [] \<Longrightarrow> frame_empty df"
  by (simp add: frame_empty_def)

lemma select_instrument_empty:
  assumes "rows df = []"
  shows "select_instrument instrument df =
           (if requested instrument \<and> ''instrument_id'' \<notin> set (columns df)
            then Inl (SystemExit ''No 'instrument_id' column in data to filter on.'')
            else Inr (if requested instrument then filter_instrument (the instrument) df else df))"
  by (cases instrument) (simp_all add: select_instrument_def requested_def)

lemma dict_update_nonempty: "d \<noteq> [] \<Longrightarrow> dict_update d e \<noteq> []"
  unfolding dict_update_def
proof (induction e arbitrary: d)
  case Nil
  then show ?case by simp
next
  case (Cons p e)
  have "AList.update (fst p) (snd p) d \<noteq> []"
    by (rule AList.update_nonempty)
  from Cons.IH [OF this] show ?case
    by (simp add: split_beta)
qed

lemma parse_line_nonempty:
  assumes "parse_line float line = Some r"
  shows "r \<noteq> []"
proof (cases "LOG_PATTERN_match (strip line)")
  case None
  then have "parse_line float line = None" by (rule parse_line_unmatched)
  with assms show ?thesis by simp
next
  case (Some q)
  obtain t l i m where "q = (t, l, i, m)" by (cases q) auto
  with Some have "LOG_PATTERN_match (strip line) = Some (t, l, i, m)" by simp
  from parse_line_matched [OF this, of float] assms
  have "r = dict_update (base_record t l i m)
              (map (\<lambda>(k, v). (k, optional_cell v)) (parse_message float m))"
    by simp
  moreover have "(base_record t l i m :: 'a cell dict) \<noteq> []"
    by (simp add: base_record_def)
  ultimately show ?thesis
    by (simp only: dict_update_nonempty not_False_eq_True)
qed

lemma map_filter_member:
  "y \<in> set (List.map_filter f xs) \<Longrightarrow> \<exists>x. f x = Some y"
proof (induction xs)
  case Nil
  then show ?case by simp
next
  case (Cons x xs)
  then show ?case by (cases "f x") auto
qed

lemma parse_lines_records:
  assumes "r \<in> set (parse_lines float lines)"
  shows "r \<noteq> []"
proof -
  from assms obtain line where "parse_line float line = Some r"
    unfolding parse_lines_def by (blast dest: map_filter_member)
  then show ?thesis by (rule parse_line_nonempty)
qed

lemma frame_empty_DataFrame:
  assumes "\<And>r. r \<in> set records \<Longrightarrow> r \<noteq> []"
  shows "frame_empty (DataFrame records) \<longleftrightarrow> records = []"
proof (cases records)
  case Nil
  then show ?thesis by (simp add: frame_empty_def DataFrame_def)
next
  case (Cons r rs)
  then have "r \<noteq> []" using assms by simp
  then obtain p ps where "r = p # ps" by (cases r) auto
  then have "fst p \<in> set (columns (DataFrame records))"
    using Cons by (simp add: DataFrame_def)
  then have "columns (DataFrame records) \<noteq> []" by auto
  then show ?thesis using Cons by (simp add: frame_empty_def DataFrame_def)
qed

lemma main_csv_empty:
  assumes "''timestamp'' \<in> set (columns csv)"
    and "rows (normalize_timestamp to_datetime csv) = []"
  shows "main_csv to_datetime csv instrument =
           Inl (SystemExit (if requested instrument \<and> ''instrument_id'' \<notin> set (columns csv)
                            then ''No 'instrument_id' column in data to filter on.''
                            else ''No data after filtering. Check instrument_id.''))"
  using assms
  by (simp add: main_csv_def load_csv_def select_instrument_empty frame_empty_rows
                rows_filter_instrument_Nil)

lemma main_json_empty:
  assumes "''timestamp'' \<in> set (columns (DataFrame data))"
    and "rows (normalize_timestamp to_datetime (DataFrame data)) = []"
  shows "main_json to_datetime data metric instrument =
           Inl (SystemExit (if requested instrument \<and> ''instrument_id'' \<notin> set (columns (DataFrame data))
                            then ''No 'instrument_id' column in data to filter on.''
                            else ''No data after filtering. Check metric/instrument names.''))"
  using assms
  by (simp add: main_json_def load_json_def Let_def select_instrument_empty frame_empty_rows
                rows_filter_instrument_Nil)

lemma load_log_parsed:
  assumes "parse_lines float lines \<noteq> []"
  shows "load_log to_datetime float lines =
           Inr (normalize_timestamp to_datetime (DataFrame (parse_lines float lines)))"
  using assms frame_empty_DataFrame [of "parse_lines float lines"] parse_lines_records [of _ float lines]
  by (simp add: load_log_def Let_def)

lemma main_log_empty:
  assumes "parse_lines float lines \<noteq> []"
    and "rows (normalize_timestamp to_datetime (DataFrame (parse_lines float lines))) = []"
  shows "main_log to_datetime float lines instrument =
           Inl (SystemExit ''No data after filtering. Check instrument_id or file content.'')"
  using assms(2)
  by (cases instrument)
     (simp_all add: main_log_def load_log_parsed [OF assms(1)] Let_def frame_empty_rows
                    rows_filter_instrument_Nil)

subsection \<open>Claims on the loaders, the summaries and the filter\<close>

text \<open>
  C7 (counterexample). A CSV table with a \<^verbatim>\<open>timestamp\<close> column whose only row has a
  timestamp that does not parse: \<^verbatim>\<open>load_csv\<close> does not fail, it returns the table without
  rows.
\<close>

theorem load_csv_empty_counterexample:
  "load_csv sample_to_datetime
     \<lparr>columns = [''timestamp'', ''value''],
      rows = [[(''timestamp'', Str ''not a date''), (''value'', Num 7)]]\<rparr>
   = Inr \<lparr>columns = [''timestamp'', ''value''], rows = []\<rparr>"
  by code_simp

text \<open>
  C7 (as amended). For each format loader, if the input has a timestamp field (for the log
  loader: at least one line matched) and zero records remain after dropping every record
  whose timestamp fails to parse, the loader returns the empty Dataset without failing; the
  run then terminates with \<^verbatim>\<open>SystemExit\<close>, by the emptiness check of \<^verbatim>\<open>main\<close> (or, in the CSV
  and JSON scripts, by the check for the \<^verbatim>\<open>instrument_id\<close> column when an instrument is
  requested and the column is missing).
\<close>

theorem empty_after_dropping:
  "(''timestamp'' \<in> set (columns csv) \<and> rows (normalize_timestamp to_datetime csv) = []
      \<longrightarrow> load_csv to_datetime csv = Inr (normalize_timestamp to_datetime csv)
          \<and> main_csv to_datetime csv instrument =
              Inl (SystemExit (if requested instrument \<and> ''instrument_id'' \<notin> set (columns csv)
                               then ''No 'instrument_id' column in data to filter on.''
                               else ''No data after filtering. Check instrument_id.'')))
   \<and> (''timestamp'' \<in> set (columns (DataFrame data))
        \<and> rows (normalize_timestamp to_datetime (DataFrame data)) = []
      \<longrightarrow> load_json to_datetime data = Inr (normalize_timestamp to_datetime (DataFrame data))
          \<and> main_json to_datetime data metric instrument =
              Inl (SystemExit (if requested instrument
                                  \<and> ''instrument_id'' \<notin> set (columns (DataFrame data))
                               then ''No 'instrument_id' column in data to filter on.''
                               else ''No data after filtering. Check metric/instrument names.'')))
   \<and> (parse_lines float lines \<noteq> []
        \<and> rows (normalize_timestamp to_datetime' (DataFrame (parse_lines float lines))) = []
      \<longrightarrow> load_log to_datetime' float lines
            = Inr (normalize_timestamp to_datetime' (DataFrame (parse_lines float lines)))
          \<and> main_log to_datetime' float lines instrument =
              Inl (SystemExit ''No data after filtering. Check instrument_id or file content.''))"
  by (simp add: main_csv_empty main_json_empty main_log_empty load_log_parsed load_csv_def
                load_json_def Let_def)

text \<open>
  C7 (witness). One record with the timestamp \<^verbatim>\<open>yesterday\<close>, in each of the three formats.
\<close>

theorem empty_after_dropping_witness:
  "load_csv sample_to_datetime
     \<lparr>columns = [''timestamp'', ''status''],
      rows = [[(''timestamp'', Str ''yesterday''), (''status'', Str ''PASS'')]]\<rparr>
     = Inr \<lparr>columns = [''timestamp'', ''status''], rows = []\<rparr>
   \<and> main_csv sample_to_datetime
     \<lparr>columns = [''timestamp'', ''status''],
      rows = [[(''timestamp'', Str ''yesterday''), (''status'', Str ''PASS'')]]\<rparr> None
     = Inl (SystemExit ''No data after filtering. Check instrument_id.'')
   \<and> load_json sample_to_datetime [[(''timestamp'', Str ''yesterday''), (''value'', Num 7)]]
     = Inr \<lparr>columns = [''timestamp'', ''value''], rows = []\<rparr>
   \<and> main_json sample_to_datetime [[(''timestamp'', Str ''yesterday''), (''value'', Num 7)]]
       ''value'' None
     = Inl (SystemExit ''No data after filtering. Check metric/instrument names.'')
   \<and> load_log sample_to_datetime sample_float [''yesterday,INFO,IVD-001,pump_start'']
     = Inr \<lparr>columns = [''timestamp'', ''level'', ''instrument_id'', ''message''], rows = []\<rparr>
   \<and> main_log sample_to_datetime sample_float [''yesterday,INFO,IVD-001,pump_start''] None
     = Inl (SystemExit ''No data after filtering. Check instrument_id or file content.'')"
proof -
  let ?csv = "\<lparr>columns = [''timestamp'', ''status''],
      rows = [[(''timestamp'', Str ''yesterday''), (''status'', Str ''PASS'' :: real cell)]]\<rparr>"
  let ?data = "[[(''timestamp'', Str ''yesterday''), (''value'', Num 7 :: real cell)]]"
  let ?lines = "[''yesterday,INFO,IVD-001,pump_start'']"
  have c: "''timestamp'' \<in> set (columns ?csv)
      \<and> rows (normalize_timestamp sample_to_datetime ?csv) = []"
    by code_simp
  have j: "''timestamp'' \<in> set (columns (DataFrame ?data))
      \<and> rows (normalize_timestamp sample_to_datetime (DataFrame ?data)) = []"
    by code_simp
  have l: "parse_lines sample_float ?lines \<noteq> []
      \<and> rows (normalize_timestamp sample_to_datetime (DataFrame (parse_lines sample_float ?lines))) = []"
    by code_simp
  have nc: "normalize_timestamp sample_to_datetime ?csv
      = \<lparr>columns = [''timestamp'', ''status''], rows = []\<rparr>"
    by code_simp
  have nj: "normalize_timestamp sample_to_datetime (DataFrame ?data)
      = \<lparr>columns = [''timestamp'', ''value''], rows = []\<rparr>"
    by code_simp
  have nl: "normalize_timestamp sample_to_datetime (DataFrame (parse_lines sample_float ?lines))
      = \<lparr>columns = [''timestamp'', ''level'', ''instrument_id'', ''message''], rows = []\<rparr>"
    by code_simp
  have r: "\<not> requested None"
    by (simp add: requested_def)
  from empty_after_dropping [where csv = ?csv and data = ?data and lines = ?lines
      and to_datetime = sample_to_datetime and to_datetime' = sample_to_datetime
      and float = sample_float and instrument = None and metric = "''value''"] c j l
  show ?thesis
    unfolding nc nj nl using r by simp
qed

text \<open>
  C8 (counterexample). The JSON script asked for a metric that no record has: the run fails
  with \<^verbatim>\<open>ValueError\<close>, no placeholder is printed.
\<close>

theorem summarize_absent_metric_counterexample:
  "main_json sample_to_datetime
     [[(''timestamp'', Str ''2025-02-01 10:00:01''), (''instrument_id'', Str ''IVD-001''),
       (''value'', Num 7)]]
     ''pressure_kpa'' None
   = Inl (ValueError ''Metric 'pressure_kpa' not found in data'')"
proof -
  have "load_json sample_to_datetime
     [[(''timestamp'', Str ''2025-02-01 10:00:01''), (''instrument_id'', Str ''IVD-001''),
       (''value'', Num 7)]]
    = Inr \<lparr>columns = [''timestamp'', ''instrument_id'', ''value''],
           rows = [[(''timestamp'', Time 1738404001000000000), (''instrument_id'', Str ''IVD-001''),
                    (''value'', Num 7)]]\<rparr>"
    by code_simp
  then show ?thesis
    by (simp add: main_json_def select_instrument_def frame_empty_def summarize_def)
qed

text \<open>
  C8 (as amended). In the CSV script, if the \<^verbatim>\<open>value\<close> column is wholly absent from the
  Dataset, the numeric summary is skipped without a fatal error: a placeholder message is
  printed instead of the statistics and the run goes on to the status summary. In the JSON
  script, a requested metric that is wholly absent is fatal: \<^verbatim>\<open>summarize\<close> raises
  \<^verbatim>\<open>ValueError\<close>, which ends the run.
\<close>

theorem summary_of_absent_field:
  "(''value'' \<notin> set (columns df)
      \<longrightarrow> summarize_value df = Inr [Print ''No 'value' column found; skipping numeric summary.''])
   \<and> (load_csv to_datetime csv = Inr loaded \<and> select_instrument instrument loaded = Inr df
        \<and> \<not> frame_empty df \<and> ''value'' \<notin> set (columns df)
      \<longrightarrow> main_csv to_datetime csv instrument
            = Inr (Print ''No 'value' column found; skipping numeric summary.'' # summarize_status df))
   \<and> (metric \<notin> set (columns df)
      \<longrightarrow> summarize df metric
            = Inl (ValueError (''Metric '' @ [CHR 0x27] @ metric @ [CHR 0x27] @ '' not found in data'')))
   \<and> (load_json to_datetime data = Inr loaded \<and> select_instrument instrument loaded = Inr df
        \<and> \<not> frame_empty df \<and> metric \<notin> set (columns df)
      \<longrightarrow> main_json to_datetime data metric instrument
            = Inl (ValueError (''Metric '' @ [CHR 0x27] @ metric @ [CHR 0x27] @ '' not found in data'')))"
  by (simp add: summarize_value_def summarize_def main_csv_def main_json_def)

text \<open>
  C8 (witness). A table with the columns \<^verbatim>\<open>timestamp\<close> and \<^verbatim>\<open>status\<close> only.
\<close>

theorem summary_of_absent_field_witness:
  "main_csv sample_to_datetime
     \<lparr>columns = [''timestamp'', ''status''],
      rows = [[(''timestamp'', Str ''2025-02-01 10:00:01''), (''status'', Str ''PASS'')]]\<rparr> None
     = Inr [Print ''No 'value' column found; skipping numeric summary.'',
            Print ''Status counts:'', PrintCounts [(Str ''PASS'', 1)], Print []]
   \<and> main_json sample_to_datetime
       [[(''timestamp'', Str ''2025-02-01 10:00:01''), (''status'', Str ''PASS'')]] ''value'' None
     = Inl (ValueError ''Metric 'value' not found in data'')"
proof -
  let ?csv = "\<lparr>columns = [''timestamp'', ''status''],
      rows = [[(''timestamp'', Str ''2025-02-01 10:00:01''), (''status'', Str ''PASS'' :: real cell)]]\<rparr>"
  let ?data = "[[(''timestamp'', Str ''2025-02-01 10:00:01''), (''status'', Str ''PASS'' :: real cell)]]"
  let ?df = "\<lparr>columns = [''timestamp'', ''status''],
      rows = [[(''timestamp'', Time 1738404001000000000), (''status'', Str ''PASS'' :: real cell)]]\<rparr>"
  have c: "load_csv sample_to_datetime ?csv = Inr ?df"
    by code_simp
  have j: "load_json sample_to_datetime ?data = Inr ?df"
    by code_simp
  have s: "select_instrument None ?df = Inr ?df"
    by (simp add: select_instrument_def)
  have e: "\<not> frame_empty ?df"
    by (simp add: frame_empty_def)
  have v: "''value'' \<notin> set (columns ?df)"
    by simp
  have st: "summarize_status ?df = [Print ''Status counts:'', PrintCounts [(Str ''PASS'', 1)], Print []]"
    by code_simp
  from summary_of_absent_field [where df = ?df and csv = ?csv and data = ?data and loaded = ?df
      and to_datetime = sample_to_datetime and instrument = None and metric = "''value''"]
    c j s e v
  show ?thesis
    unfolding st by simp
qed

text \<open>
  C9 (counterexample). With \<^verbatim>\<open>--instrument ""\<close> the test \<^verbatim>\<open>if args.instrument:\<close> is false: no
  row of the Dataset has the empty instrument id, yet no filter runs and the log run goes on
  to print its counts. And a CSV table without the \<^verbatim>\<open>instrument_id\<close> column has no row for
  the requested instrument either, but the run ends with the exit for the missing column,
  not with the one for an empty Dataset.
\<close>

theorem filter_skipped_counterexample:
  "load_log sample_to_datetime sample_float [''2025-02-01 10:00:01,INFO,IVD-001,pump_start'']
     = Inr \<lparr>columns = [''timestamp'', ''level'', ''instrument_id'', ''message''],
            rows = [[(''timestamp'', Time 1738404001000000000), (''level'', Str ''INFO''),
                     (''instrument_id'', Str ''IVD-001''), (''message'', Str ''pump_start'')]]\<rparr>
   \<and> rows (filter_instrument []
         \<lparr>columns = [''timestamp'', ''level'', ''instrument_id'', ''message''],
          rows = [[(''timestamp'', Time 1738404001000000000), (''level'', Str ''INFO''),
                   (''instrument_id'', Str ''IVD-001''), (''message'', Str ''pump_start'' :: real cell)]]\<rparr>)
       = []
   \<and> main_log sample_to_datetime sample_float [''2025-02-01 10:00:01,INFO,IVD-001,pump_start'']
         (Some [])
       = Inr [Print ''Log levels:'', PrintCounts [(Str ''INFO'', 1)], Print []]
   \<and> load_csv sample_to_datetime
         \<lparr>columns = [''timestamp'', ''value''],
          rows = [[(''timestamp'', Str ''2025-02-01 10:00:01''), (''value'', Num 7)]]\<rparr>
       = Inr \<lparr>columns = [''timestamp'', ''value''],
              rows = [[(''timestamp'', Time 1738404001000000000), (''value'', Num 7)]]\<rparr>
   \<and> rows (filter_instrument ''IVD-001''
         \<lparr>columns = [''timestamp'', ''value''],
          rows = [[(''timestamp'', Time 1738404001000000000), (''value'', Num (7 :: real))]]\<rparr>)
       = []
   \<and> main_csv sample_to_datetime
         \<lparr>columns = [''timestamp'', ''value''],
          rows = [[(''timestamp'', Str ''2025-02-01 10:00:01''), (''value'', Num 7)]]\<rparr>
         (Some ''IVD-001'')
       = Inl (SystemExit ''No 'instrument_id' column in data to filter on.'')"
proof -
  have l: "load_log sample_to_datetime sample_float [''2025-02-01 10:00:01,INFO,IVD-001,pump_start'']
     = Inr \<lparr>columns = [''timestamp'', ''level'', ''instrument_id'', ''message''],
            rows = [[(''timestamp'', Time 1738404001000000000), (''level'', Str ''INFO''),
                     (''instrument_id'', Str ''IVD-001''), (''message'', Str ''pump_start'')]]\<rparr>"
    by code_simp
  have fl: "rows (filter_instrument []
         \<lparr>columns = [''timestamp'', ''level'', ''instrument_id'', ''message''],
          rows = [[(''timestamp'', Time 1738404001000000000), (''level'', Str ''INFO''),
                   (''instrument_id'', Str ''IVD-001''), (''message'', Str ''pump_start'' :: real cell)]]\<rparr>)
       = []"
    by code_simp
  have ml: "main_log sample_to_datetime sample_float [''2025-02-01 10:00:01,INFO,IVD-001,pump_start'']
         (Some [])
       = Inr [Print ''Log levels:'', PrintCounts [(Str ''INFO'', 1)], Print []]"
    by code_simp
  have c: "load_csv sample_to_datetime
         \<lparr>columns = [''timestamp'', ''value''],
          rows = [[(''timestamp'', Str ''2025-02-01 10:00:01''), (''value'', Num 7)]]\<rparr>
       = Inr \<lparr>columns = [''timestamp'', ''value''],
              rows = [[(''timestamp'', Time 1738404001000000000), (''value'', Num 7)]]\<rparr>"
    by code_simp
  have fc: "rows (filter_instrument ''IVD-001''
         \<lparr>columns = [''timestamp'', ''value''],
          rows = [[(''timestamp'', Time 1738404001000000000), (''value'', Num (7 :: real))]]\<rparr>)
       = []"
    by code_simp
  have mc: "main_csv sample_to_datetime
         \<lparr>columns = [''timestamp'', ''value''],
          rows = [[(''timestamp'', Str ''2025-02-01 10:00:01''), (''value'', Num 7)]]\<rparr>
         (Some ''IVD-001'')
       = Inl (SystemExit ''No 'instrument_id' column in data to filter on.'')"
    using c by (simp add: main_csv_def select_instrument_def requested_def)
  from l fl ml c fc mc show ?thesis
    by (intro conjI)
qed

text \<open>
  C9 (as amended). For every Dataset a loader returned and every non-empty requested
  instrument id, if the Dataset has the \<^verbatim>\<open>instrument_id\<close> column (the records of the log
  parser always have it) and filtering by that instrument id matches zero rows, the run
  terminates with \<^verbatim>\<open>SystemExit\<close> and the diagnostic that starts
  \<^verbatim>\<open>No data after filtering\<close>, the EmptyDataset condition.
\<close>

theorem filter_without_match_fails:
  "(load_csv to_datetime csv = Inr df_csv \<and> i \<noteq> [] \<and> ''instrument_id'' \<in> set (columns df_csv)
        \<and> rows (filter_instrument i df_csv) = []
      \<longrightarrow> main_csv to_datetime csv (Some i)
            = Inl (SystemExit ''No data after filtering. Check instrument_id.''))
   \<and> (load_json to_datetime data = Inr df_json \<and> i \<noteq> []
        \<and> ''instrument_id'' \<in> set (columns df_json) \<and> rows (filter_instrument i df_json) = []
      \<longrightarrow> main_json to_datetime data metric (Some i)
            = Inl (SystemExit ''No data after filtering. Check metric/instrument names.''))
   \<and> (load_log to_datetime' float lines = Inr df_log \<and> i \<noteq> []
        \<and> rows (filter_instrument i df_log) = []
      \<longrightarrow> main_log to_datetime' float lines (Some i)
            = Inl (SystemExit ''No data after filtering. Check instrument_id or file content.''))"
  by (simp add: main_csv_def main_json_def main_log_def select_instrument_def requested_def
                frame_empty_rows)

text \<open>
  C9 (witness). One record of instrument \<^verbatim>\<open>IVD-001\<close>, and the instrument \<^verbatim>\<open>IVD-999\<close> requested,
  in each of the three formats.
\<close>

theorem filter_without_match_fails_witness:
  "main_csv sample_to_datetime
     \<lparr>columns = [''timestamp'', ''instrument_id'', ''status'', ''value''],
      rows = [[(''timestamp'', Str ''2025-02-01 10:00:01''), (''instrument_id'', Str ''IVD-001''),
               (''status'', Str ''PASS''), (''value'', Num (1013 / 10))]]\<rparr>
     (Some ''IVD-999'')
     = Inl (SystemExit ''No data after filtering. Check instrument_id.'')
   \<and> main_json sample_to_datetime
       [[(''timestamp'', Str ''2025-02-01 10:00:01''), (''instrument_id'', Str ''IVD-001''),
         (''pressure_kpa'', Num (1013 / 10))]]
       ''pressure_kpa'' (Some ''IVD-999'')
     = Inl (SystemExit ''No data after filtering. Check metric/instrument names.'')
   \<and> main_log sample_to_datetime sample_float
       [''2025-02-01 10:00:01,INFO,IVD-001,pressure_kpa=101.3''] (Some ''IVD-999'')
     = Inl (SystemExit ''No data after filtering. Check instrument_id or file content.'')"
proof -
  let ?csv = "\<lparr>columns = [''timestamp'', ''instrument_id'', ''status'', ''value''],
      rows = [[(''timestamp'', Str ''2025-02-01 10:00:01''), (''instrument_id'', Str ''IVD-001''),
               (''status'', Str ''PASS''), (''value'', Num (1013 / 10 :: real))]]\<rparr>"
  let ?dfc = "\<lparr>columns = [''timestamp'', ''instrument_id'', ''status'', ''value''],
      rows = [[(''timestamp'', Time 1738404001000000000), (''instrument_id'', Str ''IVD-001''),
               (''status'', Str ''PASS''), (''value'', Num (1013 / 10 :: real))]]\<rparr>"
  let ?data = "[[(''timestamp'', Str ''2025-02-01 10:00:01''), (''instrument_id'', Str ''IVD-001''),
         (''pressure_kpa'', Num (1013 / 10 :: real))]]"
  let ?dfj = "\<lparr>columns = [''timestamp'', ''instrument_id'', ''pressure_kpa''],
      rows = [[(''timestamp'', Time 1738404001000000000), (''instrument_id'', Str ''IVD-001''),
               (''pressure_kpa'', Num (1013 / 10 :: real))]]\<rparr>"
  let ?lines = "[''2025-02-01 10:00:01,INFO,IVD-001,pressure_kpa=101.3'']"
  let ?dfl = "\<lparr>columns = [''timestamp'', ''level'', ''instrument_id'', ''message'', ''pressure_kpa''],
      rows = [[(''timestamp'', Time 1738404001000000000), (''level'', Str ''INFO''),
               (''instrument_id'', Str ''IVD-001''), (''message'', Str ''pressure_kpa=101.3''),
               (''pressure_kpa'', Num (1013 / 10 :: real))]]\<rparr>"
  have c: "load_csv sample_to_datetime ?csv = Inr ?dfc"
    by code_simp
  have j: "load_json sample_to_datetime ?data = Inr ?dfj"
    by code_simp
  have l: "load_log sample_to_datetime sample_float ?lines = Inr ?dfl"
    by code_simp
  have fc: "rows (filter_instrument ''IVD-999'' ?dfc) = []"
    by code_simp
  have fj: "rows (filter_instrument ''IVD-999'' ?dfj) = []"
    by code_simp
  have fl: "rows (filter_instrument ''IVD-999'' ?dfl) = []"
    by code_simp
  have cols: "''instrument_id'' \<in> set (columns ?dfc)" "''instrument_id'' \<in> set (columns ?dfj)"
    by simp_all
  have i: "''IVD-999'' \<noteq> []"
    by simp
  from filter_without_match_fails [where csv = ?csv and data = ?data and lines = ?lines
      and df_csv = ?dfc and df_json = ?dfj and df_log = ?dfl
      and to_datetime = sample_to_datetime and to_datetime' = sample_to_datetime
      and float = sample_float and i = "''IVD-999''" and metric = "''pressure_kpa''"]
  show ?thesis
    using c j l fc fj fl cols i by blast
qed

end
